theory Spec2Isabelle
  imports Main
begin

section \<open>The rules engine (src/GameLogic.js)\<close>

text \<open>
  A cell of the board holds 0 (empty), 1 (black) or 2 (white).  The board is the array of
  arrays \<open>boardData\<close>; rows and columns are JavaScript numbers, modelled as \<open>int\<close>, so that
  negative coordinates are inputs like any other.  \<open>Array(boardSize)\<close> raises a RangeError on
  a negative size, hence an object that exists has a natural \<open>boardSize\<close>.
\<close>

type_synonym board = "int list list"

type_synonym pos = "int \<times> int"

record GameLogic =
  boardSize :: nat
  boardData :: board
  currentPlayer :: int
  stepNumber :: int
  gameOver :: bool
  winner :: "int option"

record move_data =
  row :: int
  col :: int
  player :: int
  step :: int

text \<open>The events \<open>GameLogic.emit\<close> sends, in the order of emission.\<close>

datatype logic_event =
    GameReset
  | PlayerChanged int
  | StonePlaced move_data
  | GameWin int "pos list" move_data

text \<open>The object \<open>placeStone\<close> returns on success; the \<open>false\<close> of a refusal is \<open>None\<close>.\<close>

record place_result =
  success :: bool
  win :: bool
  winningPositions :: "pos list option"
  moveData :: move_data

text \<open>What JavaScript raises where the model follows it: a property read on \<open>undefined\<close>
  or \<open>null\<close>.\<close>

datatype error = TypeError

text \<open>
  \<open>emit\<close> starts with \<open>this.listeners.has(event)\<close>.  On an object whose table of listeners
  exists it runs the listeners of the event, catches whatever one of them raises, and returns.
  The methods below are those of such an object; each lists the events it emits, in order.
\<close>

definition emit :: "bool \<Rightarrow> logic_event \<Rightarrow> error + logic_event" where
  "emit listenersExist ev = (if listenersExist then Inr ev else Inl TypeError)"

definition reset :: "GameLogic \<Rightarrow> GameLogic \<times> logic_event list" where
  "reset g =
     (g\<lparr>boardData := replicate (boardSize g) (replicate (boardSize g) 0),
        currentPlayer := 1, stepNumber := 1, gameOver := False, winner := None\<rparr>,
      [GameReset, PlayerChanged 1])"

text \<open>
  The constructor assigns \<open>boardSize\<close>, calls \<open>reset\<close>, and only then creates
  \<open>this.listeners\<close>.  So \<open>reset\<close> assigns its five fields and calls \<open>emit\<close> on an object
  that has no table yet: \<open>new GameLogic(n)\<close> raises, whatever \<open>n\<close> is, and returns no
  object.
\<close>

definition newGameLogic :: "nat \<Rightarrow> error + GameLogic" where
  "newGameLogic n =
     (let g = \<lparr>boardSize = n, boardData = replicate n (replicate n 0), currentPlayer = 1,
                stepNumber = 1, gameOver = False, winner = None\<rparr>
      in case emit False GameReset of
           Inl e \<Rightarrow> Inl e
         | Inr ev \<Rightarrow> (case emit False (PlayerChanged 1) of Inl e \<Rightarrow> Inl e | Inr ev' \<Rightarrow> Inr g))"

definition isValidPosition :: "GameLogic \<Rightarrow> int \<Rightarrow> int \<Rightarrow> bool" where
  "isValidPosition g r c \<longleftrightarrow>
     r \<ge> 0 \<and> r < int (boardSize g) \<and> c \<ge> 0 \<and> c < int (boardSize g)"

definition canPlaceStone :: "GameLogic \<Rightarrow> int \<Rightarrow> int \<Rightarrow> bool" where
  "canPlaceStone g r c \<longleftrightarrow>
     \<not> gameOver g \<and> r \<ge> 0 \<and> r < int (boardSize g) \<and> c \<ge> 0 \<and> c < int (boardSize g)
     \<and> boardData g ! nat r ! nat c = 0"

text \<open>
  One \<open>while\<close> loop of \<open>checkWin\<close>: from \<open>(r, c)\<close> it walks by \<open>(dx, dy)\<close> as long as
  the position is on the board and holds \<open>player\<close>, counting and collecting the cells.
  The source runs it with the four directions of its table and their opposites only; with a
  zero step the JavaScript loop would not end on a matching cell, so the recursion is guarded
  by the step being non-zero.
\<close>

function scanLine ::
  "GameLogic \<Rightarrow> int \<Rightarrow> int \<Rightarrow> int \<Rightarrow> int \<Rightarrow> pos list \<Rightarrow> int \<Rightarrow> int \<Rightarrow> int \<times> pos list" where
  "scanLine g p dx dy count wp r c =
     (if (dx \<noteq> 0 \<or> dy \<noteq> 0) \<and> isValidPosition g r c \<and> boardData g ! nat r ! nat c = p
      then scanLine g p dx dy (count + 1) (wp @ [(r, c)]) (r + dx) (c + dy)
      else (count, wp))"
  by pat_completeness auto
termination
  by (relation "measure (\<lambda>(g, p, dx, dy, count, wp, r, c).
        if dx > 0 then nat (int (boardSize g) - r)
        else if dx < 0 then nat (r + 1)
        else if dy > 0 then nat (int (boardSize g) - c)
        else nat (c + 1))")
     (auto simp: isValidPosition_def)

declare scanLine.simps [simp del]

definition directions :: "(int \<times> int) list" where
  "directions = [(0, 1), (1, 0), (1, 1), (1, -1)]"

text \<open>The \<open>for\<close> loop of \<open>checkWin\<close> over the direction table.\<close>

fun checkDirections :: "GameLogic \<Rightarrow> int \<Rightarrow> int \<Rightarrow> int \<Rightarrow> (int \<times> int) list \<Rightarrow> pos list option" where
  "checkDirections g p r c [] = None"
| "checkDirections g p r c ((dx, dy) # ds) =
     (case scanLine g p dx dy 1 [(r, c)] (r + dx) (c + dy) of
        (count1, wp1) \<Rightarrow>
          (case scanLine g p (- dx) (- dy) count1 wp1 (r - dx) (c - dy) of
             (count2, wp2) \<Rightarrow>
               if count2 = 5 then Some wp2 else checkDirections g p r c ds))"

definition checkWin :: "GameLogic \<Rightarrow> int \<Rightarrow> int \<Rightarrow> pos list option" where
  "checkWin g r c =
     (let p = boardData g ! nat r ! nat c
      in if p = 0 then None else checkDirections g p r c directions)"

definition placeStone :: "int \<Rightarrow> int \<Rightarrow> GameLogic \<Rightarrow> place_result option \<times> GameLogic \<times> logic_event list" where
  "placeStone r c g =
     (if \<not> canPlaceStone g r c then (None, g, [])
      else
        let md = \<lparr>row = r, col = c, player = currentPlayer g, step = stepNumber g\<rparr>;
            g1 = g\<lparr>boardData :=
                     (boardData g)[nat r := (boardData g ! nat r)[nat c := currentPlayer g]]\<rparr>
        in case checkWin g1 r c of
             Some wp \<Rightarrow>
               (Some \<lparr>success = True, win = True, winningPositions = Some wp, moveData = md\<rparr>,
                g1\<lparr>gameOver := True, winner := Some (currentPlayer g)\<rparr>,
                [GameWin (currentPlayer g) wp md])
           | None \<Rightarrow>
               (let np = (if currentPlayer g = 1 then 2 else 1)
                in (Some \<lparr>success = True, win = False, winningPositions = None, moveData = md\<rparr>,
                    g1\<lparr>stepNumber := stepNumber g + 1, currentPlayer := np\<rparr>,
                    [StonePlaced md, PlayerChanged np])))"

definition getStone :: "GameLogic \<Rightarrow> int \<Rightarrow> int \<Rightarrow> int option" where
  "getStone g r c = (if \<not> isValidPosition g r c then None else Some (boardData g ! nat r ! nat c))"

definition isGameOver :: "GameLogic \<Rightarrow> bool" where
  "isGameOver g = gameOver g"



section \<open>The move history (src/MovieHistory.js)\<close>

text \<open>
  A recorded move is the \<open>moveData\<close> of the placement with the time of recording.
  \<open>Date.now()\<close> is an input of the model: the operations that record a move take it as
  the argument \<open>now\<close>.
\<close>

record move = move_data +
  timestamp :: int

record MoveHistory =
  history :: "move list"
  maxHistorySize :: int

text \<open>The events \<open>MoveHistory.emit\<close> sends.\<close>

datatype history_event =
    MoveAdded move
  | MoveUndone move
  | HistoryCleared "move list"
  | HistoryTruncated "move list"

definition newMoveHistory :: MoveHistory where
  "newMoveHistory = \<lparr>history = [], maxHistorySize = 1000\<rparr>"

text \<open>\<open>push\<close>, then one \<open>shift\<close> when the length has passed the maximum.\<close>

definition addMove :: "move_data \<Rightarrow> int \<Rightarrow> MoveHistory \<Rightarrow> move \<times> MoveHistory \<times> history_event list" where
  "addMove md now h =
     (let m = \<lparr>row = row md, col = col md, player = player md, step = step md, timestamp = now\<rparr>;
          pushed = history h @ [m];
          kept = (if int (length pushed) > maxHistorySize h then tl pushed else pushed)
      in (m, h\<lparr>history := kept\<rparr>, [MoveAdded m]))"

definition undoLastMove :: "MoveHistory \<Rightarrow> move option \<times> MoveHistory \<times> history_event list" where
  "undoLastMove h =
     (if length (history h) = 0 then (None, h, [])
      else
        let lastMove = last (history h)
        in (Some lastMove, h\<lparr>history := butlast (history h)\<rparr>, [MoveUndone lastMove]))"

definition getLastMove :: "MoveHistory \<Rightarrow> move option" where
  "getLastMove h = (if length (history h) > 0 then Some (history h ! (length (history h) - 1)) else None)"

definition getLength :: "MoveHistory \<Rightarrow> nat" where
  "getLength h = length (history h)"

definition history_canUndo :: "MoveHistory \<Rightarrow> bool" where
  "history_canUndo h \<longleftrightarrow> length (history h) > 0"

definition clear :: "MoveHistory \<Rightarrow> MoveHistory \<times> history_event list" where
  "clear h = (h\<lparr>history := []\<rparr>, [HistoryCleared (history h)])"

text \<open>\<open>splice(0, length - max)\<close> removes the oldest entries and returns them.\<close>

definition setMaxHistorySize :: "int \<Rightarrow> MoveHistory \<Rightarrow> MoveHistory \<times> history_event list" where
  "setMaxHistorySize sz h =
     (let h1 = h\<lparr>maxHistorySize := max 1 sz\<rparr>
      in if int (length (history h1)) > maxHistorySize h1
         then
           let k = nat (int (length (history h1)) - maxHistorySize h1)
           in (h1\<lparr>history := drop k (history h1)\<rparr>, [HistoryTruncated (take k (history h1))])
         else (h1, []))"

section \<open>The coordinator (src/GameController.js) and the interaction it wires\<close>

text \<open>
  The record describes a controller whose modules exist and whose listeners are registered,
  as \<open>initializeModules\<close>, \<open>setupModuleConnections\<close> and \<open>bindControllerEvents\<close> leave them
  when no constructor raises: one \<open>GameLogic\<close>, an optional \<open>MoveHistory\<close> (absent when
  \<open>config.enableHistory\<close> is false), an optional AudioManager (\<open>hasAudio\<close>; absent when
  \<open>config.enableAudio\<close> is false) and the controller's \<open>gameState\<close>.  The fields
  \<open>isEnabled\<close>, \<open>isMarkingMode\<close> and \<open>prePlacePosition\<close> belong to the InteractionManager;
  they are kept in the same record because the listeners of the rules engine write them.
  The calls into the board, the user interface and an existing AudioManager are taken to
  return; nothing they return is read.  A method called on the absent AudioManager raises.
\<close>

datatype phase = Idle | Playing | Paused | Finished

record GameController =
  gameLogic :: GameLogic
  moveHistory :: "MoveHistory option"
  gameState :: phase
  hasAudio :: bool
  isEnabled :: bool
  isMarkingMode :: bool
  prePlacePosition :: "pos option"

text \<open>
  \<open>initializeModules\<close> builds the board first (a collaborator whose constructor may raise
  itself: it needs its element, and its spiral numbering leaves the matrix for an even size),
  then the engine, then the other modules.  \<open>init\<close> catches what is raised and returns
  \<open>false\<close>; the controller is then left \<open>'idle'\<close> with no engine and no history, a state
  that is not a value of the record above.  \<open>None\<close> stands for that outcome.
\<close>

definition initializeModules :: "nat \<Rightarrow> bool \<Rightarrow> bool \<Rightarrow> int \<Rightarrow> error + GameController" where
  "initializeModules n enableHistory enableAudio cap =
     (case newGameLogic n of
        Inl e \<Rightarrow> Inl e
      | Inr g \<Rightarrow>
          Inr \<lparr>gameLogic = g,
               moveHistory =
                 (if enableHistory then Some (fst (setMaxHistorySize cap newMoveHistory)) else None),
               gameState = Idle, hasAudio = enableAudio, isEnabled = True,
               isMarkingMode = False, prePlacePosition = None\<rparr>)"

definition init :: "nat \<Rightarrow> bool \<Rightarrow> bool \<Rightarrow> int \<Rightarrow> GameController option" where
  "init n enableHistory enableAudio cap =
     (case initializeModules n enableHistory enableAudio cap of
        Inl e \<Rightarrow> None
      | Inr ctl \<Rightarrow> Some (ctl\<lparr>gameState := Playing\<rparr>))"

text \<open>
  The listeners registered on the rules engine, run in the order of registration: the
  InteractionManager's, then the controller's.  On \<open>gameWin\<close>, \<open>handleGameWin\<close> starts with
  a sound and clears the preview further down; without an AudioManager it raises at once
  and \<open>emit\<close> catches that.  On \<open>gameReset\<close>, \<open>handleGameReset\<close> clears the preview and
  leaves the marking mode; the controller sets \<open>gameState\<close> and \<open>onGameReset\<close> clears the
  history.  On \<open>stonePlaced\<close> the controller records the move.
\<close>

fun notify :: "int \<Rightarrow> logic_event \<Rightarrow> GameController \<Rightarrow> GameController" where
  "notify now GameReset c =
     c\<lparr>prePlacePosition := None, isMarkingMode := False, gameState := Playing,
       moveHistory := map_option (\<lambda>h. fst (clear h)) (moveHistory c)\<rparr>"
| "notify now (PlayerChanged p) c = c"
| "notify now (StonePlaced md) c =
     c\<lparr>moveHistory := map_option (\<lambda>h. fst (snd (addMove md now h))) (moveHistory c)\<rparr>"
| "notify now (GameWin w wp md) c =
     c\<lparr>prePlacePosition := (if hasAudio c then None else prePlacePosition c),
       gameState := Finished\<rparr>"

text \<open>A call of \<open>gameLogic.placeStone\<close> on the wired engine: the call, then its listeners.\<close>

definition gameLogic_placeStone ::
  "int \<Rightarrow> int \<Rightarrow> int \<Rightarrow> GameController \<Rightarrow> place_result option \<times> GameController" where
  "gameLogic_placeStone now r c ctl =
     (case placeStone r c (gameLogic ctl) of
        (res, g', evs) \<Rightarrow> (res, fold (notify now) evs (ctl\<lparr>gameLogic := g'\<rparr>)))"

text \<open>
  The methods of the InteractionManager return nothing; \<open>Some e\<close> says that the call raised
  \<open>e\<close>, and the state is the one it left.  \<open>handleSuccessfulMove\<close> starts with a sound, and
  on a win calls \<open>handleGameWin\<close>, which clears the preview.
\<close>

definition handleSuccessfulMove :: "place_result \<Rightarrow> GameController \<Rightarrow> error option \<times> GameController" where
  "handleSuccessfulMove res ctl =
     (if \<not> hasAudio ctl then (Some TypeError, ctl)
      else (None, if win res then ctl\<lparr>prePlacePosition := None\<rparr> else ctl))"

definition confirmPlacement :: "int \<Rightarrow> int \<Rightarrow> int \<Rightarrow> GameController \<Rightarrow> error option \<times> GameController" where
  "confirmPlacement now r c ctl =
     (case gameLogic_placeStone now r c (ctl\<lparr>prePlacePosition := None\<rparr>) of
        (Some res, ctl1) \<Rightarrow> handleSuccessfulMove res ctl1
      | (None, ctl1) \<Rightarrow> (if hasAudio ctl1 then (None, ctl1) else (Some TypeError, ctl1)))"

definition handleNormalClick :: "int \<Rightarrow> int \<Rightarrow> int \<Rightarrow> GameController \<Rightarrow> error option \<times> GameController" where
  "handleNormalClick now r c ctl =
     (if isGameOver (gameLogic ctl) then (if hasAudio ctl then (None, ctl) else (Some TypeError, ctl))
      else if \<not> canPlaceStone (gameLogic ctl) r c
      then (if hasAudio ctl then (None, ctl) else (Some TypeError, ctl))
      else
        case prePlacePosition ctl of
          Some (pr, pc) \<Rightarrow>
            if pr = r \<and> pc = c then confirmPlacement now r c ctl
            else (None, ctl\<lparr>prePlacePosition := Some (r, c)\<rparr>)
        | None \<Rightarrow> (None, ctl\<lparr>prePlacePosition := Some (r, c)\<rparr>))"

text \<open>A click on a cell.  In the marking mode it toggles a mark of the user interface.\<close>

definition handleCellClick :: "int \<Rightarrow> int \<Rightarrow> int \<Rightarrow> GameController \<Rightarrow> error option \<times> GameController" where
  "handleCellClick now r c ctl =
     (if \<not> isEnabled ctl then (None, ctl)
      else if \<not> hasAudio ctl then (Some TypeError, ctl)
      else if isMarkingMode ctl then (None, ctl)
      else handleNormalClick now r c ctl)"

text \<open>The mark button: \<open>toggleMarkingMode\<close> clears the preview when it leaves the marking
  mode, and ends with a sound.\<close>

definition handleMarkToggleRequest :: "GameController \<Rightarrow> error option \<times> GameController" where
  "handleMarkToggleRequest ctl =
     (if \<not> isEnabled ctl then (None, ctl)
      else
        let c1 = ctl\<lparr>isMarkingMode := \<not> isMarkingMode ctl\<rparr>;
            c2 = (if \<not> isMarkingMode c1 then c1\<lparr>prePlacePosition := None\<rparr> else c1)
        in (if hasAudio c2 then None else Some TypeError, c2))"

definition canUndo :: "GameController \<Rightarrow> bool" where
  "canUndo ctl \<longleftrightarrow>
     gameState ctl = Playing \<and>
     (case moveHistory ctl of None \<Rightarrow> False | Some h \<Rightarrow> history_canUndo h)"

text \<open>
  The statement \<open>boardData[row][col] = v\<close> of \<open>performUndo\<close>, which no bounds check
  precedes.  A row outside the array is \<open>undefined\<close> and the assignment raises a TypeError.
  A column outside the row makes JavaScript grow the row or add a property to it; the cells
  \<open>0 .. boardSize - 1\<close>, the only ones any method reads, stay as they are.
\<close>

definition storeCell :: "board \<Rightarrow> int \<Rightarrow> int \<Rightarrow> int \<Rightarrow> error + board" where
  "storeCell b r c v =
     (if 0 \<le> r \<and> r < int (length b)
      then Inr (if 0 \<le> c \<and> c < int (length (b ! nat r))
                then b[nat r := (b ! nat r)[nat c := v]] else b)
      else Inl TypeError)"

text \<open>
  \<open>performUndo\<close> returns \<open>false\<close> or \<open>true\<close>, or raises; the second component is the
  state it leaves.  The \<open>moveUndone\<close> listener clears the preview before its sound.
\<close>

definition performUndo :: "GameController \<Rightarrow> (error + bool) \<times> GameController" where
  "performUndo ctl =
     (if \<not> canUndo ctl then (Inr False, ctl)
      else
        case moveHistory ctl of
          None \<Rightarrow> (Inr False, ctl)
        | Some h \<Rightarrow>
            (case undoLastMove h of
               (None, h', evs) \<Rightarrow> (Inr False, ctl)
             | (Some lastMove, h', evs) \<Rightarrow>
                 (let c1 = ctl\<lparr>moveHistory := Some h', prePlacePosition := None\<rparr>
                  in (case storeCell (boardData (gameLogic c1)) (row lastMove) (col lastMove) 0 of
                        Inl e \<Rightarrow> (Inl e, c1)
                      | Inr b \<Rightarrow>
                          (Inr True,
                           c1\<lparr>gameLogic := (gameLogic c1)
                                 \<lparr>boardData := b, currentPlayer := player lastMove,
                                  stepNumber := step lastMove, gameOver := False, winner := None\<rparr>,
                              gameState := Playing\<rparr>)))))"

text \<open>\<open>resetGame\<close> goes through \<open>InteractionManager.resetGame\<close>; no move is recorded, so the
  time handed to the listeners is not read.\<close>

definition resetGame :: "GameController \<Rightarrow> bool \<times> GameController" where
  "resetGame ctl =
     (case reset (gameLogic ctl) of
        (g', evs) \<Rightarrow>
          (True, (fold (notify 0) evs (ctl\<lparr>gameLogic := g'\<rparr>))
                   \<lparr>isMarkingMode := False, prePlacePosition := None\<rparr>))"


definition resumeGame :: "GameController \<Rightarrow> bool \<times> GameController" where
  "resumeGame ctl =
     (if gameState ctl = Paused
      then (True, ctl\<lparr>gameState := Playing, isEnabled := True\<rparr>)
      else (False, ctl))"

section \<open>Import (GameController.importGame)\<close>

text \<open>
  A coordinate of a saved move is read from JSON.  A JSON number is an integer (\<open>Whole k\<close>)
  or lies strictly between two neighbouring integers (\<open>Between k\<close>: between \<open>k\<close> and
  \<open>k + 1\<close>); against the integer \<open>boardSize\<close> the comparisons of \<open>canPlaceStone\<close> treat
  \<open>Between k\<close> as they treat \<open>k\<close>.  Used as an index, a number that is not an integer finds
  nothing: \<open>boardData[row]\<close> is \<open>undefined\<close> and reading its \<open>[col]\<close> raises, while
  \<open>boardData[row][col]\<close> with an integer row is \<open>undefined\<close>, which is not \<open>0\<close>.
\<close>

datatype js_number = Whole int | Between int

fun floor_of :: "js_number \<Rightarrow> int" where
  "floor_of (Whole k) = k"
| "floor_of (Between k) = k"

definition canPlaceStone_number :: "GameLogic \<Rightarrow> js_number \<Rightarrow> js_number \<Rightarrow> error + bool" where
  "canPlaceStone_number g r c =
     (if gameOver g then Inr False
      else if \<not> (floor_of r \<ge> 0 \<and> floor_of r < int (boardSize g)
                 \<and> floor_of c \<ge> 0 \<and> floor_of c < int (boardSize g)) then Inr False
      else
        case r of
          Between i \<Rightarrow> Inl TypeError
        | Whole i \<Rightarrow> (case c of Between j \<Rightarrow> Inr False | Whole j \<Rightarrow> Inr (boardData g ! nat i ! nat j = 0)))"

text \<open>\<open>placeStone\<close> on the wired engine with JSON numbers: it starts with \<open>canPlaceStone\<close>,
  which accepts integers only.\<close>

definition gameLogic_placeStone_number ::
  "int \<Rightarrow> js_number \<Rightarrow> js_number \<Rightarrow> GameController \<Rightarrow> error + (place_result option \<times> GameController)" where
  "gameLogic_placeStone_number now r c ctl =
     (case canPlaceStone_number (gameLogic ctl) r c of
        Inl e \<Rightarrow> Inl e
      | Inr ok \<Rightarrow>
          (case (r, c) of
             (Whole i, Whole j) \<Rightarrow> Inr (gameLogic_placeStone now i j ctl)
           | _ \<Rightarrow> Inr (None, ctl)))"

text \<open>
  \<open>importGame\<close> reads the parsed text: \<open>None\<close> stands for a text \<open>JSON.parse\<close> rejects, a
  missing \<open>boardState\<close> or \<open>boardData\<close> for a falsy field.  The saved \<open>moveHistory\<close> is
  falsy (\<open>NoMoves\<close>), a truthy value without \<open>forEach\<close> (\<open>NotAnArray\<close>) or an array.  An
  entry of the array is \<open>null\<close> (\<open>NullEntry\<close>, whose \<open>row\<close> cannot be read), or has two JSON
  numbers as \<open>row\<close> and \<open>col\<close> (\<open>Cell\<close>; the replay reads nothing else of it), or is
  anything else (\<open>OtherEntry\<close>: a coordinate that is missing or a string, a boolean, \<open>null\<close>,
  an array or an object).  What the code does with an \<open>OtherEntry\<close> rests on JavaScript's
  conversions between such values, numbers and property names, which are not modelled: the
  replay stops there as \<open>Unmodelled\<close>, and \<open>importGame\<close> gives no result (\<open>None\<close>).
  Whatever is raised inside the \<open>try\<close> block is caught and turned into the result \<open>false\<close>,
  with the state as it is at that moment.  \<open>now i\<close> is the time at the replay of entry \<open>i\<close>.
\<close>

datatype saved_entry = NullEntry | Cell js_number js_number | OtherEntry

datatype saved_moves = NoMoves | NotAnArray | Moves "saved_entry list"

record saved_board =
  saved_boardData :: "board option"
  saved_moveHistory :: saved_moves

record saved_game =
  boardState :: "saved_board option"

datatype replay_end = Completed | Raised error | Unmodelled

fun replayMoves ::
  "(nat \<Rightarrow> int) \<Rightarrow> nat \<Rightarrow> saved_entry list \<Rightarrow> GameController \<Rightarrow> replay_end \<times> GameController" where
  "replayMoves now i [] ctl = (Completed, ctl)"
| "replayMoves now i (NullEntry # ms) ctl = (Raised TypeError, ctl)"
| "replayMoves now i (OtherEntry # ms) ctl = (Unmodelled, ctl)"
| "replayMoves now i (Cell r c # ms) ctl =
     (case gameLogic_placeStone_number (now i) r c ctl of
        Inl e \<Rightarrow> (Raised e, ctl)
      | Inr (None, ctl1) \<Rightarrow> replayMoves now (Suc i) ms ctl1
      | Inr (Some res, ctl1) \<Rightarrow>
          (case handleSuccessfulMove res ctl1 of
             (Some e, ctl2) \<Rightarrow> (Raised e, ctl2)
           | (None, ctl2) \<Rightarrow> replayMoves now (Suc i) ms ctl2))"

definition importGame ::
  "saved_game option \<Rightarrow> (nat \<Rightarrow> int) \<Rightarrow> GameController \<Rightarrow> bool option \<times> GameController" where
  "importGame parsed now ctl =
     (case parsed of
        None \<Rightarrow> (Some False, ctl)
      | Some gameData \<Rightarrow>
          (case boardState gameData of
             None \<Rightarrow> (Some False, ctl)
           | Some bs \<Rightarrow>
               (case saved_boardData bs of
                  None \<Rightarrow> (Some False, ctl)
                | Some bd \<Rightarrow>
                    (let c1 = snd (resetGame ctl)
                     in (case (saved_moveHistory bs, moveHistory c1) of
                           (NoMoves, _) \<Rightarrow> (Some True, c1)
                         | (_, None) \<Rightarrow> (Some True, c1)
                         | (NotAnArray, Some h) \<Rightarrow> (Some False, c1)
                         | (Moves ms, Some h) \<Rightarrow>
                             (case replayMoves now 0 ms c1 of
                                (Completed, c2) \<Rightarrow> (Some True, c2)
                              | (Raised e, c2) \<Rightarrow> (Some False, c2)
                              | (Unmodelled, c2) \<Rightarrow> (None, c2)))))))"

section \<open>Invariants and the notions the claims are stated with\<close>

text \<open>
  The shape every method of \<open>GameLogic\<close> relies on: \<open>boardSize\<close> rows of \<open>boardSize\<close>
  cells holding 0, 1 or 2, a current player that is 1 or 2, and a winner exactly when the
  game is over.
\<close>

definition wf_logic :: "GameLogic \<Rightarrow> bool" where
  "wf_logic g \<longleftrightarrow>
     length (boardData g) = boardSize g \<and>
     list_all (\<lambda>rw. length rw = boardSize g \<and> list_all (\<lambda>v. v = 0 \<or> v = 1 \<or> v = 2) rw)
       (boardData g) \<and>
     (currentPlayer g = 1 \<or> currentPlayer g = 2) \<and>
     (gameOver g \<longleftrightarrow> winner g \<noteq> None)"

text \<open>The engine as \<open>reset\<close> leaves it: an empty board, black to move, step 1.\<close>

definition afterReset :: "nat \<Rightarrow> GameLogic" where
  "afterReset n =
     \<lparr>boardSize = n, boardData = replicate n (replicate n 0), currentPlayer = 1,
      stepNumber = 1, gameOver = False, winner = None\<rparr>"

text \<open>A recorded move lies on a board of size \<open>n\<close> and belongs to one of the two players.\<close>

definition on_board :: "nat \<Rightarrow> move \<Rightarrow> bool" where
  "on_board n m \<longleftrightarrow>
     0 \<le> row m \<and> row m < int n \<and> 0 \<le> col m \<and> col m < int n \<and> (player m = 1 \<or> player m = 2)"

text \<open>The history holds moves of the board only, and no more of them than its maximum.\<close>

definition recorded_ok :: "nat \<Rightarrow> MoveHistory \<Rightarrow> bool" where
  "recorded_ok n h \<longleftrightarrow>
     list_all (on_board n) (history h) \<and>
     1 \<le> maxHistorySize h \<and> int (length (history h)) \<le> maxHistorySize h"

text \<open>
  What every operation of a wired controller keeps (the lemmas \<open>_consistent\<close> below), and
  what holds right after \<open>resetGame\<close>: the engine is well formed, on a board of odd size
  (the only sizes for which a board module exists), the history fits it, the state is not
  \<open>'idle'\<close> (which \<open>init\<close> ends and only \<open>destroy\<close>, removing the modules, brings back),
  the engine's \<open>gameOver\<close> and the controller's \<open>'finished'\<close> go together, and the
  interaction is disabled while the game is paused.
\<close>

definition consistent :: "GameController \<Rightarrow> bool" where
  "consistent ctl \<longleftrightarrow>
     wf_logic (gameLogic ctl) \<and>
     odd (boardSize (gameLogic ctl)) \<and>
     (case moveHistory ctl of None \<Rightarrow> True | Some h \<Rightarrow> recorded_ok (boardSize (gameLogic ctl)) h) \<and>
     gameState ctl \<noteq> Idle \<and>
     (gameOver (gameLogic ctl) \<longleftrightarrow> gameState ctl = Finished) \<and>
     (gameState ctl = Paused \<longrightarrow> \<not> isEnabled ctl)"

text \<open>The engine once \<open>placeStone\<close> has written the stone of the current player.\<close>

definition put :: "GameLogic \<Rightarrow> int \<Rightarrow> int \<Rightarrow> GameLogic" where
  "put g r c = g\<lparr>boardData := (boardData g)[nat r := (boardData g ! nat r)[nat c := currentPlayer g]]\<rparr>"





definition afterResetGame :: "nat \<Rightarrow> int \<Rightarrow> GameController" where
  "afterResetGame n cap =
     \<lparr>gameLogic = afterReset n, moveHistory = Some \<lparr>history = [], maxHistorySize = cap\<rparr>,
      gameState = Playing, hasAudio = True, isEnabled = True, isMarkingMode = False,
      prePlacePosition = None\<rparr>"





definition full_history :: MoveHistory where
  "full_history =
     \<lparr>history = [\<lparr>row = 0, col = 0, player = 1, step = 1, timestamp = 5\<rparr>], maxHistorySize = 1\<rparr>"

definition roomy_history :: MoveHistory where
  "roomy_history =
     \<lparr>history = [\<lparr>row = 0, col = 0, player = 1, step = 1, timestamp = 5\<rparr>], maxHistorySize = 2\<rparr>"















section \<open>Properties\<close>

subsection \<open>Reading a cell\<close>

lemma wf_logic_cell:
  assumes "wf_logic g" "i < boardSize g" "j < boardSize g"
  shows "boardData g ! i ! j = 0 \<or> boardData g ! i ! j = 1 \<or> boardData g ! i ! j = 2"
    and "length (boardData g ! i) = boardSize g"
  using assms unfolding wf_logic_def list_all_length by auto

text \<open>
  C10.  \<open>getStone\<close> is defined on every pair of integers: outside the board it returns
  \<open>null\<close>, on the board the occupant of the cell, which is 0, 1 or 2.  It is a function of
  the engine's state to a value: there is no state it could return changed.
\<close>

theorem getStone_total:
  assumes "wf_logic g"
  shows "getStone g r c =
           (if 0 \<le> r \<and> r < int (boardSize g) \<and> 0 \<le> c \<and> c < int (boardSize g)
            then Some (boardData g ! nat r ! nat c) else None)
         \<and> (getStone g r c = None \<or> getStone g r c = Some 0 \<or> getStone g r c = Some 1
              \<or> getStone g r c = Some 2)"
proof -
  have eq: "getStone g r c =
           (if 0 \<le> r \<and> r < int (boardSize g) \<and> 0 \<le> c \<and> c < int (boardSize g)
            then Some (boardData g ! nat r ! nat c) else None)"
    by (simp add: getStone_def isValidPosition_def)
  show ?thesis
  proof (cases "0 \<le> r \<and> r < int (boardSize g) \<and> 0 \<le> c \<and> c < int (boardSize g)")
    case True
    then have "nat r < boardSize g" "nat c < boardSize g" by auto
    from wf_logic_cell(1)[OF assms this] eq True show ?thesis by auto
  next
    case False
    with eq show ?thesis by simp
  qed
qed

lemma afterReset_wf: "wf_logic (afterReset n)"
  by (simp add: afterReset_def wf_logic_def list_all_length)

lemma reset_afterReset: "reset g = (afterReset (boardSize g), [GameReset, PlayerChanged 1])"
  by (simp add: reset_def afterReset_def)

text \<open>On the empty 5 x 5 board: an empty cell, and \<open>null\<close> past either edge.\<close>

theorem getStone_total_witness:
  "wf_logic (afterReset 5) \<and> getStone (afterReset 5) 2 3 = Some 0 \<and> getStone (afterReset 5) 5 0 = None
   \<and> getStone (afterReset 5) (- 1) 0 = None"
proof -
  have w: "wf_logic (afterReset 5)" by (rule afterReset_wf)
  from getStone_total[OF w, of 2 3] getStone_total[OF w, of 5 0] getStone_total[OF w, of "-1" 0] w
  show ?thesis by (simp add: afterReset_def)
qed

subsection \<open>Appending to the history\<close>

lemma tl_snoc: "xs \<noteq> [] \<Longrightarrow> tl (xs @ [x]) = tl xs @ [x]"
  by (cases xs) auto

lemma addMove_bounded:
  assumes "1 \<le> maxHistorySize h" "int (length (history h)) \<le> maxHistorySize h"
    and "addMove md now h = (m, h', evs)"
  shows "int (length (history h')) \<le> maxHistorySize h'
         \<and> maxHistorySize h' = maxHistorySize h
         \<and> m = \<lparr>row = row md, col = col md, player = player md, step = step md, timestamp = now\<rparr>
         \<and> history h' = (if int (length (history h)) = maxHistorySize h
                          then tl (history h) @ [m] else history h @ [m])
         \<and> evs = [MoveAdded m]"
proof (cases "int (length (history h)) = maxHistorySize h")
  case True
  with assms(1) have ne: "history h \<noteq> []" by auto
  from True assms(3) ne show ?thesis
    by (auto simp: addMove_def Let_def tl_snoc)
next
  case False
  with assms(2,3) show ?thesis
    by (auto simp: addMove_def Let_def)
qed

subsection \<open>The operations keep the invariant\<close>

lemma list_all_update:
  "list_all P xs \<Longrightarrow> P x \<Longrightarrow> list_all P (xs[i := x])"
  using set_update_subset_insert[of xs i x] by (auto simp: list_all_iff)

lemma wf_logic_store:
  assumes "wf_logic g" "v = 0 \<or> v = 1 \<or> v = 2"
  shows "wf_logic (g\<lparr>boardData := (boardData g)[i := (boardData g ! i)[j := v]]\<rparr>)"
proof (cases "i < length (boardData g)")
  case True
  with assms(1) have rw: "length (boardData g ! i) = boardSize g"
    "list_all (\<lambda>v. v = 0 \<or> v = 1 \<or> v = 2) (boardData g ! i)"
    by (auto simp: wf_logic_def list_all_length)
  from rw(2) assms(2) have "list_all (\<lambda>v. v = 0 \<or> v = 1 \<or> v = 2) ((boardData g ! i)[j := v])"
    by (rule list_all_update)
  with rw(1) assms(1) show ?thesis
    by (auto simp: wf_logic_def intro!: list_all_update)
next
  case False
  then have "(boardData g)[i := (boardData g ! i)[j := v]] = boardData g"
    by (simp add: list_update_beyond not_less)
  with assms(1) show ?thesis by (simp add: wf_logic_def)
qed

lemma placeStone_rejected:
  "\<not> canPlaceStone g r c \<Longrightarrow> placeStone r c g = (None, g, [])"
  by (simp add: placeStone_def)

lemma placeStone_win:
  "canPlaceStone g r c \<Longrightarrow> checkWin (put g r c) r c = Some wp \<Longrightarrow>
   placeStone r c g =
     (Some \<lparr>success = True, win = True, winningPositions = Some wp,
            moveData = \<lparr>row = r, col = c, player = currentPlayer g, step = stepNumber g\<rparr>\<rparr>,
      (put g r c)\<lparr>gameOver := True, winner := Some (currentPlayer g)\<rparr>,
      [GameWin (currentPlayer g) wp \<lparr>row = r, col = c, player = currentPlayer g, step = stepNumber g\<rparr>])"
  by (simp add: placeStone_def put_def Let_def)

lemma placeStone_continue:
  "canPlaceStone g r c \<Longrightarrow> checkWin (put g r c) r c = None \<Longrightarrow>
   placeStone r c g =
     (Some \<lparr>success = True, win = False, winningPositions = None,
            moveData = \<lparr>row = r, col = c, player = currentPlayer g, step = stepNumber g\<rparr>\<rparr>,
      (put g r c)\<lparr>stepNumber := stepNumber g + 1,
                  currentPlayer := (if currentPlayer g = 1 then 2 else 1)\<rparr>,
      [StonePlaced \<lparr>row = r, col = c, player = currentPlayer g, step = stepNumber g\<rparr>,
       PlayerChanged (if currentPlayer g = 1 then 2 else 1)])"
  by (simp add: placeStone_def put_def Let_def)

lemma wf_logic_put: "wf_logic g \<Longrightarrow> wf_logic (put g r c)"
  unfolding put_def by (rule wf_logic_store) (auto simp: wf_logic_def)

lemma put_fields [simp]:
  "boardSize (put g r c) = boardSize g" "currentPlayer (put g r c) = currentPlayer g"
  "stepNumber (put g r c) = stepNumber g" "gameOver (put g r c) = gameOver g"
  "winner (put g r c) = winner g"
  by (simp_all add: put_def)

lemma placeStone_wf:
  assumes "wf_logic g" "placeStone r c g = (res, g', evs)"
  shows "wf_logic g' \<and> boardSize g' = boardSize g"
proof (cases "canPlaceStone g r c")
  case False
  with assms show ?thesis by (simp add: placeStone_rejected)
next
  case True
  have w: "wf_logic (put g r c)" using assms(1) by (rule wf_logic_put)
  from True have ng: "\<not> gameOver g" by (simp add: canPlaceStone_def)
  show ?thesis
  proof (cases "checkWin (put g r c) r c")
    case None
    from placeStone_continue[OF True None] assms(2) w ng show ?thesis
      by (auto simp: wf_logic_def)
  next
    case (Some wp)
    from placeStone_win[OF True Some] assms(2) w show ?thesis
      by (auto simp: wf_logic_def)
  qed
qed

lemma gameLogic_placeStone_rejected:
  "\<not> canPlaceStone (gameLogic ctl) r c \<Longrightarrow> gameLogic_placeStone now r c ctl = (None, ctl)"
  by (simp add: gameLogic_placeStone_def placeStone_rejected)

lemma gameLogic_placeStone_win:
  assumes "canPlaceStone (gameLogic ctl) r c" "checkWin (put (gameLogic ctl) r c) r c = Some wp"
  shows "gameLogic_placeStone now r c ctl =
     (Some \<lparr>success = True, win = True, winningPositions = Some wp,
            moveData = \<lparr>row = r, col = c, player = currentPlayer (gameLogic ctl),
                        step = stepNumber (gameLogic ctl)\<rparr>\<rparr>,
      ctl\<lparr>gameLogic := (put (gameLogic ctl) r c)
                 \<lparr>gameOver := True, winner := Some (currentPlayer (gameLogic ctl))\<rparr>,
          prePlacePosition := (if hasAudio ctl then None else prePlacePosition ctl),
          gameState := Finished\<rparr>)"
  by (simp add: gameLogic_placeStone_def placeStone_win[OF assms])

lemma gameLogic_placeStone_continue:
  assumes "canPlaceStone (gameLogic ctl) r c" "checkWin (put (gameLogic ctl) r c) r c = None"
  shows "gameLogic_placeStone now r c ctl =
     (Some \<lparr>success = True, win = False, winningPositions = None,
            moveData = \<lparr>row = r, col = c, player = currentPlayer (gameLogic ctl),
                        step = stepNumber (gameLogic ctl)\<rparr>\<rparr>,
      ctl\<lparr>gameLogic := (put (gameLogic ctl) r c)
                 \<lparr>stepNumber := stepNumber (gameLogic ctl) + 1,
                  currentPlayer := (if currentPlayer (gameLogic ctl) = 1 then 2 else 1)\<rparr>,
          moveHistory := map_option
             (\<lambda>h. fst (snd (addMove \<lparr>row = r, col = c, player = currentPlayer (gameLogic ctl),
                                     step = stepNumber (gameLogic ctl)\<rparr> now h)))
             (moveHistory ctl)\<rparr>)"
  by (simp add: gameLogic_placeStone_def placeStone_continue[OF assms])

lemma recorded_ok_addMove:
  assumes "recorded_ok n h" "0 \<le> row md \<and> row md < int n \<and> 0 \<le> col md \<and> col md < int n"
    "player md = 1 \<or> player md = 2"
  shows "recorded_ok n (fst (snd (addMove md now h)))"
proof -
  obtain m h' evs where a: "addMove md now h = (m, h', evs)" by (cases "addMove md now h") auto
  from assms(1) have b: "1 \<le> maxHistorySize h" "int (length (history h)) \<le> maxHistorySize h"
    and l: "list_all (on_board n) (history h)"
    by (auto simp: recorded_ok_def)
  note f = addMove_bounded[OF b a]
  from l have lt: "list_all (on_board n) (tl (history h))"
    by (cases "history h") auto
  from f assms(2,3) have pm: "on_board n m"
    by (auto simp: on_board_def)
  from f l lt pm b show ?thesis
    by (auto simp: recorded_ok_def a)
qed

lemma gameLogic_placeStone_consistent:
  assumes "consistent ctl"
  shows "consistent (snd (gameLogic_placeStone now r c ctl))"
proof (cases "canPlaceStone (gameLogic ctl) r c")
  case False
  with assms show ?thesis by (simp add: gameLogic_placeStone_rejected)
next
  case True
  let ?g = "gameLogic ctl"
  from assms have wf: "wf_logic ?g" by (simp add: consistent_def)
  have wp: "wf_logic (put ?g r c)" using wf by (rule wf_logic_put)
  from True have ng: "\<not> gameOver ?g"
    and v: "0 \<le> r \<and> r < int (boardSize ?g) \<and> 0 \<le> c \<and> c < int (boardSize ?g)"
    by (auto simp: canPlaceStone_def)
  from wf have cp: "currentPlayer ?g = 1 \<or> currentPlayer ?g = 2" by (simp add: wf_logic_def)
  show ?thesis
  proof (cases "checkWin (put ?g r c) r c")
    case (Some w)
    from assms wp show ?thesis
      unfolding gameLogic_placeStone_win[OF True Some]
      by (auto simp: consistent_def wf_logic_def split: option.splits)
  next
    case None
    have ra: "\<And>h. recorded_ok (boardSize ?g) h \<Longrightarrow> recorded_ok (boardSize ?g) (fst (snd (addMove
        \<lparr>row = r, col = c, player = currentPlayer ?g, step = stepNumber ?g\<rparr> now h)))"
      using v cp by (intro recorded_ok_addMove) auto
    from assms wp ng ra show ?thesis
      unfolding gameLogic_placeStone_continue[OF True None]
      by (auto simp: consistent_def wf_logic_def split: option.splits)
  qed
qed

lemma performUndo_refused:
  "\<not> canUndo ctl \<Longrightarrow> performUndo ctl = (Inr False, ctl)"
  by (simp add: performUndo_def)

lemma performUndo_done:
  assumes "gameState ctl = Playing" "moveHistory ctl = Some h" "history h \<noteq> []"
    and "0 \<le> row (last (history h))" "row (last (history h)) < int (length (boardData (gameLogic ctl)))"
    and "0 \<le> col (last (history h))"
        "col (last (history h)) < int (length (boardData (gameLogic ctl) ! nat (row (last (history h)))))"
  shows "performUndo ctl =
     (Inr True,
      ctl\<lparr>moveHistory := Some (h\<lparr>history := butlast (history h)\<rparr>),
          prePlacePosition := None,
          gameLogic := (gameLogic ctl)
            \<lparr>boardData := (boardData (gameLogic ctl))
                [nat (row (last (history h))) :=
                   (boardData (gameLogic ctl) ! nat (row (last (history h))))
                     [nat (col (last (history h))) := 0]],
             currentPlayer := player (last (history h)),
             stepNumber := step (last (history h)),
             gameOver := False, winner := None\<rparr>,
          gameState := Playing\<rparr>)"
  using assms
  by (simp add: performUndo_def canUndo_def history_canUndo_def undoLastMove_def storeCell_def Let_def)

lemma performUndo_consistent:
  assumes "consistent ctl"
  shows "consistent (snd (performUndo ctl))"
proof (cases "canUndo ctl")
  case False
  with assms show ?thesis by (simp add: performUndo_refused)
next
  case True
  then obtain h where h: "gameState ctl = Playing" "moveHistory ctl = Some h" "history h \<noteq> []"
    by (auto simp: canUndo_def history_canUndo_def split: option.splits)
  let ?g = "gameLogic ctl" and ?m = "last (history h)"
  from assms h have wf: "wf_logic ?g" and ro: "recorded_ok (boardSize ?g) h"
    by (auto simp: consistent_def)
  from ro h(3) have ob: "on_board (boardSize ?g) ?m"
    by (auto simp: recorded_ok_def list_all_iff)
  from ob have rb: "0 \<le> row ?m" "row ?m < int (boardSize ?g)" "0 \<le> col ?m" "col ?m < int (boardSize ?g)"
    and pl: "player ?m = 1 \<or> player ?m = 2"
    by (auto simp: on_board_def)
  from rb have "nat (row ?m) < boardSize ?g" by simp
  with wf have len: "length (boardData ?g) = boardSize ?g"
    "length (boardData ?g ! nat (row ?m)) = boardSize ?g"
    by (auto simp: wf_logic_def list_all_length)
  have st: "wf_logic (?g\<lparr>boardData := (boardData ?g)[nat (row ?m) := (boardData ?g ! nat (row ?m))[nat (col ?m) := 0]]\<rparr>)"
    using wf by (rule wf_logic_store) simp
  from ro have ro': "recorded_ok (boardSize ?g) (h\<lparr>history := butlast (history h)\<rparr>)"
    by (auto simp: recorded_ok_def list_all_iff dest: in_set_butlastD)
  have pu: "performUndo ctl = (Inr True,
      ctl\<lparr>moveHistory := Some (h\<lparr>history := butlast (history h)\<rparr>),
          prePlacePosition := None,
          gameLogic := ?g
            \<lparr>boardData := (boardData ?g)[nat (row ?m) := (boardData ?g ! nat (row ?m))[nat (col ?m) := 0]],
             currentPlayer := player ?m, stepNumber := step ?m,
             gameOver := False, winner := None\<rparr>,
          gameState := Playing\<rparr>)"
    using h rb len by (intro performUndo_done) auto
  from st ro' pl assms show ?thesis
    unfolding pu by (auto simp: consistent_def wf_logic_def)
qed

lemma reset_wf: "wf_logic (fst (reset g))"
  by (simp add: reset_def wf_logic_def list_all_length)

lemma resetGame_consistent:
  assumes "consistent ctl"
  shows "consistent (snd (resetGame ctl))"
  using assms reset_wf[of "gameLogic ctl"]
  by (auto simp: resetGame_def reset_def consistent_def clear_def recorded_ok_def
           split: option.splits)


lemma resumeGame_consistent: "consistent ctl \<Longrightarrow> consistent (snd (resumeGame ctl))"
  by (auto simp: resumeGame_def consistent_def split: option.splits)

lemma prePlace_consistent [simp]: "consistent (ctl\<lparr>prePlacePosition := p\<rparr>) = consistent ctl"
  by (simp add: consistent_def split: option.split)

lemma handleSuccessfulMove_consistent:
  "consistent ctl \<Longrightarrow> consistent (snd (handleSuccessfulMove res ctl))"
  by (simp add: handleSuccessfulMove_def)

lemma confirmPlacement_consistent:
  assumes "consistent ctl"
  shows "consistent (snd (confirmPlacement now r c ctl))"
proof -
  from assms have "consistent (ctl\<lparr>prePlacePosition := None\<rparr>)" by simp
  then have "consistent (snd (gameLogic_placeStone now r c (ctl\<lparr>prePlacePosition := None\<rparr>)))"
    by (rule gameLogic_placeStone_consistent)
  then show ?thesis
    by (auto simp: confirmPlacement_def handleSuccessfulMove_def split: prod.splits option.splits)
qed

lemma handleCellClick_consistent:
  "consistent ctl \<Longrightarrow> consistent (snd (handleCellClick now r c ctl))"
  by (auto simp: handleCellClick_def handleNormalClick_def
           intro!: confirmPlacement_consistent split: option.splits)

lemma handleMarkToggleRequest_consistent:
  "consistent ctl \<Longrightarrow> consistent (snd (handleMarkToggleRequest ctl))"
  by (auto simp: handleMarkToggleRequest_def Let_def consistent_def split: option.splits)

lemma gameLogic_placeStone_number_consistent:
  assumes "consistent ctl" "gameLogic_placeStone_number now r c ctl = Inr (res, ctl1)"
  shows "consistent ctl1"
proof (cases "\<exists>i j. r = Whole i \<and> c = Whole j")
  case True
  then obtain i j where "r = Whole i" "c = Whole j" by blast
  with assms(2) have "ctl1 = snd (gameLogic_placeStone now i j ctl)"
    by (auto simp: gameLogic_placeStone_number_def split: sum.splits)
  with assms(1) show ?thesis by (simp add: gameLogic_placeStone_consistent)
next
  case False
  with assms(2) have "ctl1 = ctl"
    by (cases r; cases c) (auto simp: gameLogic_placeStone_number_def split: sum.splits)
  with assms(1) show ?thesis by simp
qed

lemma replayMoves_consistent:
  "consistent ctl \<Longrightarrow> consistent (snd (replayMoves now i ms ctl))"
proof (induction ms arbitrary: i ctl)
  case Nil
  then show ?case by simp
next
  case (Cons m ms)
  show ?case
  proof (cases m)
    case NullEntry
    with Cons.prems show ?thesis by simp
  next
    case OtherEntry
    with Cons.prems show ?thesis by simp
  next
    case (Cell r c)
    show ?thesis
    proof (cases "gameLogic_placeStone_number (now i) r c ctl")
      case (Inl e)
      with Cons.prems Cell show ?thesis by simp
    next
      case (Inr x)
      obtain res ctl1 where x: "x = (res, ctl1)" by (cases x)
      from gameLogic_placeStone_number_consistent[OF Cons.prems Inr[unfolded x]]
      have c1: "consistent ctl1" .
      show ?thesis
      proof (cases res)
        case None
        from Cons.IH[OF c1, of "Suc i"] show ?thesis by (simp add: Cell Inr x None)
      next
        case (Some pr)
        obtain e ctl2 where h: "handleSuccessfulMove pr ctl1 = (e, ctl2)"
          by (cases "handleSuccessfulMove pr ctl1")
        from handleSuccessfulMove_consistent[OF c1, of pr] h have c2: "consistent ctl2" by simp
        show ?thesis
        proof (cases e)
          case None
          from Cons.IH[OF c2, of "Suc i"] show ?thesis by (simp add: Cell Inr x Some h None)
        next
          case (Some err)
          with c2 show ?thesis by (simp add: Cell Inr x \<open>res = Some pr\<close> h)
        qed
      qed
    qed
  qed
qed

lemma importGame_consistent:
  assumes "consistent ctl"
  shows "consistent (snd (importGame parsed now ctl))"
proof -
  have r: "consistent (snd (resetGame ctl))" using assms by (rule resetGame_consistent)
  have rp: "\<And>ms. consistent (snd (replayMoves now 0 ms (snd (resetGame ctl))))"
    using r by (rule replayMoves_consistent)
  have aux: "\<And>ms e c2. replayMoves now 0 ms (snd (resetGame ctl)) = (e, c2) \<Longrightarrow> consistent c2"
    using rp by (metis snd_conv)
  show ?thesis
    using assms r aux
    by (auto simp: importGame_def Let_def
             split: option.splits saved_moves.splits prod.splits replay_end.splits)
qed

subsection \<open>Win detection\<close>












lemma resetGame_afterResetGame: "resetGame (afterResetGame n cap) = (True, afterResetGame n cap)"
  by (simp add: resetGame_def reset_afterReset afterResetGame_def clear_def afterReset_def)






subsection \<open>The example game\<close>







subsection \<open>Placement followed by undo\<close>





subsection \<open>Recording of moves\<close>


subsection \<open>Eviction from the history\<close>

text \<open>
  C9.  An append at the maximum evicts the oldest entry, so the length stays within the
  maximum (\<open>addMove_bounded\<close>); the eviction should be signalled.  \<open>setMaxHistorySize\<close> emits
  \<open>historyTruncated\<close> with the entries it removes, \<open>addMove\<close> emits \<open>moveAdded\<close> and nothing
  else: the events of an append that evicts are those of one that does not.
\<close>

theorem eviction_is_silent:
  "history (fst (snd (addMove \<lparr>row = 0, col = 1, player = 2, step = 2\<rparr> 7 full_history))) =
     [\<lparr>row = 0, col = 1, player = 2, step = 2, timestamp = 7\<rparr>]
   \<and> snd (snd (addMove \<lparr>row = 0, col = 1, player = 2, step = 2\<rparr> 7 full_history)) =
     [MoveAdded \<lparr>row = 0, col = 1, player = 2, step = 2, timestamp = 7\<rparr>]
   \<and> history (fst (snd (addMove \<lparr>row = 0, col = 1, player = 2, step = 2\<rparr> 7 roomy_history))) =
     [\<lparr>row = 0, col = 0, player = 1, step = 1, timestamp = 5\<rparr>,
      \<lparr>row = 0, col = 1, player = 2, step = 2, timestamp = 7\<rparr>]
   \<and> snd (snd (addMove \<lparr>row = 0, col = 1, player = 2, step = 2\<rparr> 7 roomy_history)) =
     [MoveAdded \<lparr>row = 0, col = 1, player = 2, step = 2, timestamp = 7\<rparr>]
   \<and> snd (setMaxHistorySize 1 (fst (snd (addMove \<lparr>row = 0, col = 1, player = 2, step = 2\<rparr> 7 roomy_history)))) =
     [HistoryTruncated [\<lparr>row = 0, col = 0, player = 1, step = 1, timestamp = 5\<rparr>]]"
  by code_simp

subsection \<open>Undo\<close>




subsection \<open>The paused game\<close>




subsection \<open>Construction\<close>

text \<open>No engine and no wired controller comes out of the constructors as they are written.\<close>

lemma newGameLogic_raises: "newGameLogic n = Inl TypeError"
  by (simp add: newGameLogic_def emit_def)

lemma init_fails: "init n enableHistory enableAudio cap = None"
  by (simp add: init_def initializeModules_def newGameLogic_raises)

subsection \<open>The full board\<close>


subsection \<open>Import\<close>







end
